theory Spec2Isabelle
  imports Complex_Main "HOL-Library.Multiset"
begin

section \<open>Data model of the dashboard\<close>

text \<open>
  The two source files are React components: \<open>App\<close> (profile lookup, simulated
  achievements, progress estimate) and \<open>RepositoryList\<close> (repository fetch, sorting,
  relative dates). Component state (\<open>useState\<close>, \<open>useKV\<close>) is an explicit record that
  every handler takes and returns; the outcome of a \<open>fetch\<close> is an input of the handler.

  JavaScript numbers: the counters of a profile and of a repository are integers
  (\<open>int\<close>). The quotients that \<open>getAchievementProgress\<close> and
  \<open>simulateUnlockedAchievements\<close> compute are kept as exact rationals; the rounding of
  IEEE doubles is not part of the model.

  Dates: a field that the source passes to \<open>new Date(...).getTime()\<close> holds the time
  value so obtained, in milliseconds since the epoch; \<open>None\<close> is \<open>NaN\<close>, the time value
  of an invalid date. \<open>Date.now()\<close> is the parameter \<open>now\<close>.
\<close>

type_synonym time_value = "int option"

record UserData =
  login :: string
  avatarUrl :: string
  publicRepos :: int
  followers :: int
  following :: int
  createdAt :: time_value

text \<open>
  \<open>Achievement\<close> is declared in \<open>@/lib/achievements\<close>; \<open>App\<close> reads only its \<open>id\<close>
  (\<open>ach_id\<close> here, since \<open>id\<close> is the identity function of HOL).
\<close>

record Achievement =
  ach_id :: string

datatype toast = ToastError string "string option" | ToastSuccess string "string option"

text \<open>
  State of \<open>App\<close>: the two \<open>useKV\<close> slots, the loading flag and the notifications
  shown so far. \<open>useKV\<close> may hold no value, so the unlocked list is optional, as the
  source's test \<open>!unlockedAchievements\<close> expects.
\<close>

record app_state =
  userData :: "UserData option"
  unlockedAchievements :: "string list option"
  isLoading :: bool
  toasts :: "toast list"

section \<open>Achievement evaluation\<close>

definition ms_per_day :: int where
  "ms_per_day = 1000 * 60 * 60 * 24"

text \<open>
  \<open>daysOld\<close> of the source: \<open>accountAge / (1000 * 60 * 60 * 24)\<close>, a quotient that is
  not rounded; \<open>None\<close> when the time value of \<open>createdAt\<close> is \<open>NaN\<close>.
\<close>

definition daysOld :: "int \<Rightarrow> UserData \<Rightarrow> rat option" where
  "daysOld now user =
     (case createdAt user of
        None \<Rightarrow> None
      | Some t \<Rightarrow> Some (of_int (now - t) / of_int ms_per_day))"

text \<open>The local array \<open>unlocked\<close> of \<open>simulateUnlockedAchievements\<close>, push by push.\<close>

definition unlocked_of :: "int \<Rightarrow> UserData \<Rightarrow> string list" where
  "unlocked_of now user =
     (let unlocked = [];
          unlocked = (if publicRepos user \<ge> 2
                      then unlocked @ [''yolo'', ''quickdraw''] else unlocked);
          unlocked = (if publicRepos user \<ge> 5
                      then unlocked @ [''open-sourcerer'', ''heart-on-sleeve''] else unlocked);
          unlocked = (if followers user \<ge> 10
                      then unlocked @ [''pair-extraordinaire''] else unlocked);
          unlocked = (case daysOld now user of
                        None \<Rightarrow> unlocked
                      | Some d \<Rightarrow> if d > 365 then unlocked @ [''pull-shark''] else unlocked)
      in unlocked)"

definition simulateUnlockedAchievements :: "int \<Rightarrow> UserData \<Rightarrow> app_state \<Rightarrow> app_state" where
  "simulateUnlockedAchievements now user st =
     st\<lparr>unlockedAchievements := Some (unlocked_of now user)\<rparr>"

text \<open>The account is strictly more than 365 days old (false for an invalid date).\<close>

definition older_than_365_days :: "int \<Rightarrow> UserData \<Rightarrow> bool" where
  "older_than_365_days now user =
     (case createdAt user of None \<Rightarrow> False | Some t \<Rightarrow> now - t > 365 * ms_per_day)"

text \<open>
  \<open>getAchievementProgress\<close> reads the two slots of the state. \<open>Math.min\<close> is \<open>min\<close>.
\<close>

definition getAchievementProgress :: "app_state \<Rightarrow> Achievement \<Rightarrow> rat" where
  "getAchievementProgress st achievement =
     (case userData st of
        None \<Rightarrow> 0
      | Some u \<Rightarrow>
          (case unlockedAchievements st of
             None \<Rightarrow> 0
           | Some ul \<Rightarrow>
               if ach_id achievement \<in> set ul then 100
               else if ach_id achievement = ''pull-shark''
                 then min ((of_int (publicRepos u) / 2) * 100) 99
               else if ach_id achievement = ''starstruck''
                 then min ((of_int (followers u) / 16) * 100) 99
               else if ach_id achievement = ''open-sourcerer''
                 then min ((of_int (publicRepos u) / 3) * 100) 99
               else if ach_id achievement = ''pair-extraordinaire''
                 then min ((of_int (followers u) / 10) * 100) 99
               else (if publicRepos u > 0 then 25 else 0)))"

text \<open>
  The progress rule in the words of the specification: 100 for an unlocked id, else the
  per-id ratio as a percentage, at most 99, else the default.
\<close>

definition ratio_percent :: "int \<Rightarrow> int \<Rightarrow> rat" where
  "ratio_percent n d = min (of_int (100 * n) / of_int d) 99"

definition progressOf :: "string \<Rightarrow> UserData \<Rightarrow> string set \<Rightarrow> rat" where
  "progressOf i p unlocked =
     (if i \<in> unlocked then 100
      else if i = ''pull-shark'' then ratio_percent (publicRepos p) 2
      else if i = ''starstruck'' then ratio_percent (followers p) 16
      else if i = ''open-sourcerer'' then ratio_percent (publicRepos p) 3
      else if i = ''pair-extraordinaire'' then ratio_percent (followers p) 10
      else if publicRepos p > 0 then 25 else 0)"

text \<open>Profiles and states used as concrete inputs.\<close>

definition profile :: "int \<Rightarrow> int \<Rightarrow> time_value \<Rightarrow> UserData" where
  "profile repos_n followers_n created =
     \<lparr>login = ''octocat'', avatarUrl = '''', publicRepos = repos_n,
      followers = followers_n, following = 0, createdAt = created\<rparr>"

definition loaded :: "UserData \<Rightarrow> string list \<Rightarrow> app_state" where
  "loaded u ul =
     \<lparr>userData = Some u, unlockedAchievements = Some ul, isLoading = False, toasts = []\<rparr>"

definition initial_state :: app_state where
  "initial_state =
     \<lparr>userData = None, unlockedAchievements = Some [], isLoading = False, toasts = []\<rparr>"

section \<open>Profile fetch\<close>

text \<open>
  What \<open>await fetch(url)\<close> gives the handler: the promise rejects (no status is ever
  obtained), or it resolves to a response with the fields the source reads,
  \<open>response.ok\<close>, \<open>response.status\<close> and the outcome of \<open>response.json()\<close>, which
  rejects or yields the parsed body. The body is typed as the source reads it.
\<close>

datatype 'a json_result = JsonRejected | JsonValue 'a

record 'a response =
  ok :: bool
  status :: int
  json :: "'a json_result"

datatype 'a fetch_outcome = FetchRejected | FetchResolved "'a response"

text \<open>The consumed fields of \<open>GET /users/{username}\<close>.\<close>

record api_user =
  api_login :: string
  avatar_url :: string
  public_repos :: int
  api_followers :: int
  api_following :: int
  created_at :: time_value

definition toast_error :: "string \<Rightarrow> string option \<Rightarrow> app_state \<Rightarrow> app_state" where
  "toast_error title descr st = st\<lparr>toasts := toasts st @ [ToastError title descr]\<rparr>"

definition toast_success :: "string \<Rightarrow> string option \<Rightarrow> app_state \<Rightarrow> app_state" where
  "toast_success title descr st = st\<lparr>toasts := toasts st @ [ToastSuccess title descr]\<rparr>"

definition setIsLoading :: "bool \<Rightarrow> app_state \<Rightarrow> app_state" where
  "setIsLoading b st = st\<lparr>isLoading := b\<rparr>"

definition setUserData :: "UserData \<Rightarrow> app_state \<Rightarrow> app_state" where
  "setUserData user st = st\<lparr>userData := Some user\<rparr>"

text \<open>The \<open>catch\<close> block of \<open>fetchUserData\<close>, then its \<open>finally\<close>.\<close>

definition fetchUserData_catch :: "app_state \<Rightarrow> app_state" where
  "fetchUserData_catch st =
     setIsLoading False
       (toast_error ''Network error'' (Some ''Could not connect to GitHub API.'') st)"

definition not_found_description :: "string \<Rightarrow> string" where
  "not_found_description username =
     ''The username \"'' @ username @ ''\" does not exist on GitHub.''"

definition fetchUserData :: "int \<Rightarrow> string \<Rightarrow> api_user fetch_outcome \<Rightarrow> app_state \<Rightarrow> app_state" where
  "fetchUserData now username outcome st0 =
     (let st = setIsLoading True st0 in
      case outcome of
        FetchRejected \<Rightarrow> fetchUserData_catch st
      | FetchResolved response \<Rightarrow>
          if \<not> ok response then
            (let st = (if status response = 404
                       then toast_error ''User not found''
                              (Some (not_found_description username)) st
                       else toast_error ''Failed to fetch user data''
                              (Some ''Please try again later.'') st);
                 st = setIsLoading False st
             in setIsLoading False st)
          else
            (case json response of
               JsonRejected \<Rightarrow> fetchUserData_catch st
             | JsonValue data \<Rightarrow>
                 (let user = \<lparr>login = api_login data,
                              avatarUrl = avatar_url data,
                              publicRepos = public_repos data,
                              followers = api_followers data,
                              following = api_following data,
                              createdAt = created_at data\<rparr>;
                      st = setUserData user st;
                      st = simulateUnlockedAchievements now user st;
                      st = toast_success ''Profile loaded!''
                             (Some (''Viewing achievements for @'' @ username)) st
                  in setIsLoading False st)))"

text \<open>
  A request fails when the promise rejects, when the status is not a success, or when
  the body cannot be read.
\<close>

definition fetch_failed :: "'a fetch_outcome \<Rightarrow> bool" where
  "fetch_failed outcome =
     (case outcome of
        FetchRejected \<Rightarrow> True
      | FetchResolved r \<Rightarrow> \<not> ok r \<or> json r = JsonRejected)"

text \<open>Responses used as concrete inputs.\<close>

definition http_error :: "int \<Rightarrow> 'a response" where
  "http_error code = \<lparr>ok = False, status = code, json = JsonRejected\<rparr>"

definition http_ok :: "'a \<Rightarrow> 'a response" where
  "http_ok body = \<lparr>ok = True, status = 200, json = JsonValue body\<rparr>"

section \<open>Repository list\<close>

text \<open>
  \<open>id\<close> and \<open>private\<close> are \<open>repo_id\<close> and \<open>is_private\<close> here. \<open>updated_at\<close> holds the
  time value of the date string.
\<close>

record Repository =
  repo_id :: int
  name :: string
  full_name :: string
  description :: "string option"
  html_url :: string
  stargazers_count :: int
  forks_count :: int
  watchers_count :: int
  language :: "string option"
  updated_at :: time_value
  topics :: "string list"
  is_private :: bool

datatype sort_mode = Updated | Stars | Name

text \<open>
  The comparison function handed to \<open>sort\<close>. \<open>String.prototype.localeCompare\<close> depends
  on the host's collation and is a parameter. A difference of time values is \<open>NaN\<close>
  (\<open>None\<close>) when one of them is.
\<close>

definition compareRepos ::
  "(string \<Rightarrow> string \<Rightarrow> int) \<Rightarrow> sort_mode \<Rightarrow> Repository \<Rightarrow> Repository \<Rightarrow> int option" where
  "compareRepos localeCompare sortBy a b =
     (case sortBy of
        Stars \<Rightarrow> Some (stargazers_count b - stargazers_count a)
      | Name \<Rightarrow> Some (localeCompare (name a) (name b))
      | Updated \<Rightarrow>
          (case updated_at b of
             None \<Rightarrow> None
           | Some tb \<Rightarrow> (case updated_at a of None \<Rightarrow> None | Some ta \<Rightarrow> Some (tb - ta))))"

text \<open>
  \<open>Array.prototype.sort\<close>: the abstract operation SortCompare of ECMAScript turns a
  \<open>NaN\<close> answer of the comparison function into \<open>+0\<close>. The sort is stable, and for a
  consistent comparison function that fixes its result, whatever the engine's
  algorithm; the model is the stable insertion sort. (For a comparison function that
  is not consistent, ECMAScript leaves the order to the engine.)
\<close>

definition SortCompare :: "('a \<Rightarrow> 'a \<Rightarrow> int option) \<Rightarrow> 'a \<Rightarrow> 'a \<Rightarrow> int" where
  "SortCompare comparefn x y = (case comparefn x y of None \<Rightarrow> 0 | Some v \<Rightarrow> v)"

fun insert_sorted :: "('a \<Rightarrow> 'a \<Rightarrow> int) \<Rightarrow> 'a \<Rightarrow> 'a list \<Rightarrow> 'a list" where
  "insert_sorted cmp x [] = [x]"
| "insert_sorted cmp x (y # ys) =
     (if cmp x y \<le> 0 then x # y # ys else y # insert_sorted cmp x ys)"

definition array_sort :: "('a \<Rightarrow> 'a \<Rightarrow> int option) \<Rightarrow> 'a list \<Rightarrow> 'a list" where
  "array_sort comparefn xs = foldr (insert_sorted (SortCompare comparefn)) xs []"

text \<open>The value of \<open>sortedRepos\<close>: the elements of \<open>repos\<close>, sorted.\<close>

definition sortedRepos ::
  "(string \<Rightarrow> string \<Rightarrow> int) \<Rightarrow> sort_mode \<Rightarrow> Repository list \<Rightarrow> Repository list" where
  "sortedRepos localeCompare sortBy repos = array_sort (compareRepos localeCompare sortBy) repos"

text \<open>
  Arrays are objects: the state holds a reference, and \<open>sort\<close> reorders the array it is
  called on in place. The store lists the arrays allocated so far, an address is an
  index into it. The spread \<open>[...repos]\<close> allocates a new array with the elements of
  the old one.
\<close>

type_synonym 'a store = "'a list list"

definition array_alloc :: "'a list \<Rightarrow> 'a store \<Rightarrow> nat \<times> 'a store" where
  "array_alloc xs h = (length h, h @ [xs])"

definition array_spread :: "nat \<Rightarrow> 'a store \<Rightarrow> nat \<times> 'a store" where
  "array_spread a h = array_alloc (h ! a) h"

definition array_sort_in_place :: "('a \<Rightarrow> 'a \<Rightarrow> int option) \<Rightarrow> nat \<Rightarrow> 'a store \<Rightarrow> 'a store" where
  "array_sort_in_place comparefn a h = h[a := array_sort comparefn (h ! a)]"

text \<open>
  State of \<open>RepositoryList\<close>: the store, the reference \<open>repos\<close>, the loading flag, the
  sort mode, the notifications and the URLs requested so far.
\<close>

record repo_list_state =
  store :: "Repository store"
  repos :: nat
  reposLoading :: bool
  sortBy :: sort_mode
  repoToasts :: "toast list"
  requests :: "string list"

text \<open>A reference held by the state points into the store.\<close>

definition wf_state :: "repo_list_state \<Rightarrow> bool" where
  "wf_state st = (repos st < length (store st))"

definition repos_value :: "repo_list_state \<Rightarrow> Repository list" where
  "repos_value st = store st ! repos st"

text \<open>
  Evaluating \<open>[...repos].sort(...)\<close> during a render: the address of the sorted array
  and the state afterwards.
\<close>

definition sortedRepos_eval ::
  "(string \<Rightarrow> string \<Rightarrow> int) \<Rightarrow> repo_list_state \<Rightarrow> nat \<times> repo_list_state" where
  "sortedRepos_eval localeCompare st =
     (let (a, h) = array_spread (repos st) (store st);
          h = array_sort_in_place (compareRepos localeCompare (sortBy st)) a h
      in (a, st\<lparr>store := h\<rparr>))"

definition repos_url :: "string \<Rightarrow> string" where
  "repos_url username =
     ''https://api.github.com/users/'' @ username @ ''/repos?sort=updated&per_page=30''"

definition fetchRepositories ::
  "string \<Rightarrow> Repository list fetch_outcome \<Rightarrow> repo_list_state \<Rightarrow> repo_list_state" where
  "fetchRepositories username outcome st0 =
     (let st = st0\<lparr>reposLoading := True\<rparr>;
          st = st\<lparr>requests := requests st @ [repos_url username]\<rparr>;
          catch = (\<lambda>st. st\<lparr>repoToasts := repoToasts st @
                      [ToastError ''Network error'' (Some ''Could not load repositories'')],
                    reposLoading := False\<rparr>)
      in case outcome of
           FetchRejected \<Rightarrow> catch st
         | FetchResolved response \<Rightarrow>
             if \<not> ok response then
               st\<lparr>repoToasts := repoToasts st @ [ToastError ''Failed to fetch repositories'' None],
                  reposLoading := False\<rparr>
             else
               (case json response of
                  JsonRejected \<Rightarrow> catch st
                | JsonValue data \<Rightarrow>
                    (let (a, h) = array_alloc data (store st)
                     in st\<lparr>store := h, repos := a, reposLoading := False\<rparr>)))"

text \<open>Choosing a sort mode (\<open>setSortBy\<close>); the effect that fetches depends on \<open>username\<close> only.\<close>

definition setSortBy :: "sort_mode \<Rightarrow> repo_list_state \<Rightarrow> repo_list_state" where
  "setSortBy mode st = st\<lparr>sortBy := mode\<rparr>"

text \<open>
  What the specification asks of the order: the relation two neighbours of the sorted
  list are in, and when two repositories tie.
\<close>

definition in_order :: "(string \<Rightarrow> string \<Rightarrow> int) \<Rightarrow> sort_mode \<Rightarrow> Repository \<Rightarrow> Repository \<Rightarrow> bool" where
  "in_order localeCompare mode a b =
     (case mode of
        Updated \<Rightarrow> the (updated_at a) \<ge> the (updated_at b)
      | Stars \<Rightarrow> stargazers_count a \<ge> stargazers_count b
      | Name \<Rightarrow> localeCompare (name a) (name b) \<le> 0)"


text \<open>
  A comparison function is consistent on a set when "not after" is total and
  transitive there.
\<close>

definition consistent_on :: "('a \<Rightarrow> 'a \<Rightarrow> int) \<Rightarrow> 'a set \<Rightarrow> bool" where
  "consistent_on cmp A =
     ((\<forall>x\<in>A. \<forall>y\<in>A. cmp x y \<le> 0 \<or> cmp y x \<le> 0) \<and>
      (\<forall>x\<in>A. \<forall>y\<in>A. \<forall>z\<in>A. cmp x y \<le> 0 \<and> cmp y z \<le> 0 \<longrightarrow> cmp x z \<le> 0))"

text \<open>
  Concrete inputs: a comparison of strings by code unit in the place of
  \<open>localeCompare\<close>, three repositories, and a state that holds them.
\<close>

fun codeunit_compare :: "string \<Rightarrow> string \<Rightarrow> int" where
  "codeunit_compare [] [] = 0"
| "codeunit_compare [] (y # ys) = - 1"
| "codeunit_compare (x # xs) [] = 1"
| "codeunit_compare (x # xs) (y # ys) =
     (if x = y then codeunit_compare xs ys
      else if (of_char x :: nat) < of_char y then - 1 else 1)"

definition repo :: "string \<Rightarrow> int \<Rightarrow> int \<Rightarrow> Repository" where
  "repo n stars updated =
     \<lparr>repo_id = 0, name = n, full_name = ''octocat/'' @ n, description = None,
      html_url = [], stargazers_count = stars, forks_count = 0, watchers_count = stars,
      language = None, updated_at = Some updated, topics = [], is_private = False\<rparr>"

definition three_repos :: "Repository list" where
  "three_repos = [repo ''b'' 5 300, repo ''a'' 7 100, repo ''b'' 5 200]"


definition showing :: "Repository list \<Rightarrow> repo_list_state" where
  "showing rs =
     \<lparr>store = [rs], repos = 0, reposLoading = False, sortBy = Updated,
      repoToasts = [], requests = [repos_url ''octocat'']\<rparr>"

section \<open>Relative dates\<close>

text \<open>
  A template literal renders an integral number in decimal, with a sign when it is
  negative.
\<close>

fun digits_of :: "nat \<Rightarrow> string" where
  "digits_of n =
     (if n < 10 then [''0123456789'' ! n]
      else digits_of (n div 10) @ [''0123456789'' ! (n mod 10)])"

declare digits_of.simps [simp del]

definition number_toString :: "int \<Rightarrow> string" where
  "number_toString i = (if i < 0 then CHR ''-'' # digits_of (nat (- i)) else digits_of (nat i))"

text \<open>
  \<open>formatDate\<close>: \<open>Math.floor\<close> of the quotient by the milliseconds of a day is \<open>div\<close>
  on \<open>int\<close>, which rounds down. With an invalid date every comparison with \<open>NaN\<close> is
  false and the last \<open>return\<close> renders \<open>NaN\<close>.
\<close>

definition formatDate :: "int \<Rightarrow> time_value \<Rightarrow> string" where
  "formatDate now date =
     (case date of
        None \<Rightarrow> ''Updated NaN years ago''
      | Some t \<Rightarrow>
          (let diffInDays = (now - t) div ms_per_day in
           if diffInDays = 0 then ''Updated today''
           else if diffInDays = 1 then ''Updated yesterday''
           else if diffInDays < 7 then ''Updated '' @ number_toString diffInDays @ '' days ago''
           else if diffInDays < 30
             then ''Updated '' @ number_toString (diffInDays div 7) @ '' weeks ago''
           else if diffInDays < 365
             then ''Updated '' @ number_toString (diffInDays div 30) @ '' months ago''
           else ''Updated '' @ number_toString (diffInDays div 365) @ '' years ago''))"

section \<open>Properties of the achievement evaluation\<close>

lemma days_gt_365:
  "((of_int a / of_int ms_per_day :: rat) > 365) = (a > 365 * ms_per_day)"
proof -
  have "((365::rat) < of_int a / 86400000) = (365 * 86400000 < (of_int a :: rat))"
    by (simp add: pos_less_divide_eq)
  also have "\<dots> = ((of_int (365 * 86400000) :: rat) < of_int a)"
    by simp
  also have "\<dots> = (365 * 86400000 < a)"
    by (simp only: of_int_less_iff)
  finally show ?thesis
    by (simp add: ms_per_day_def)
qed

lemma older_than_365_days_daysOld:
  "older_than_365_days now u = (\<exists>d. daysOld now u = Some d \<and> d > 365)"
  by (simp add: daysOld_def older_than_365_days_def days_gt_365 del: of_int_diff
      split: option.splits)

lemma set_unlocked_of:
  "set (unlocked_of now u) =
     (if publicRepos u \<ge> 2 then {''yolo'', ''quickdraw''} else {}) \<union>
     (if publicRepos u \<ge> 5 then {''open-sourcerer'', ''heart-on-sleeve''} else {}) \<union>
     (if followers u \<ge> 10 then {''pair-extraordinaire''} else {}) \<union>
     (if older_than_365_days now u then {''pull-shark''} else {})"
  by (cases "createdAt u")
     (auto simp: unlocked_of_def daysOld_def older_than_365_days_def days_gt_365 Let_def
        simp del: of_int_diff)

lemma unlocked_of_empty:
  assumes "followers u < 10" "publicRepos u < 2" "\<not> older_than_365_days now u"
  shows "unlocked_of now u = []"
proof -
  have "set (unlocked_of now u) = {}"
    using assms by (simp add: set_unlocked_of)
  then show ?thesis by simp
qed

text \<open>
  Claim C1. The list that \<open>simulateUnlockedAchievements\<close> stores is the rule table:
  \<open>yolo\<close> and \<open>quickdraw\<close> exactly from 2 public repositories on, \<open>open-sourcerer\<close> and
  \<open>heart-on-sleeve\<close> exactly from 5 on, \<open>pair-extraordinaire\<close> exactly from 10 followers
  on, \<open>pull-shark\<close> exactly when the account is strictly more than 365 days old, and
  no other id. With fewer than 10 followers, fewer than 2 repositories and an account
  that is not more than 365 days old, the list is empty.
\<close>

theorem simulateUnlockedAchievements_rule_table:
  fixes now :: int and u :: UserData and st :: app_state
  shows "unlockedAchievements (simulateUnlockedAchievements now u st) = Some (unlocked_of now u)
   \<and> (''yolo'' \<in> set (unlocked_of now u)) = (publicRepos u \<ge> 2)
   \<and> (''quickdraw'' \<in> set (unlocked_of now u)) = (publicRepos u \<ge> 2)
   \<and> (''open-sourcerer'' \<in> set (unlocked_of now u)) = (publicRepos u \<ge> 5)
   \<and> (''heart-on-sleeve'' \<in> set (unlocked_of now u)) = (publicRepos u \<ge> 5)
   \<and> (''pair-extraordinaire'' \<in> set (unlocked_of now u)) = (followers u \<ge> 10)
   \<and> (''pull-shark'' \<in> set (unlocked_of now u)) = older_than_365_days now u
   \<and> set (unlocked_of now u) \<subseteq>
        {''yolo'', ''quickdraw'', ''open-sourcerer'', ''heart-on-sleeve'',
         ''pair-extraordinaire'', ''pull-shark''}
   \<and> (followers u < 10 \<and> publicRepos u < 2 \<and> \<not> older_than_365_days now u
        \<longrightarrow> unlocked_of now u = [])"
proof -
  have stored: "unlockedAchievements (simulateUnlockedAchievements now u st)
      = Some (unlocked_of now u)"
    by (simp add: simulateUnlockedAchievements_def)
  have members:
    "(''yolo'' \<in> set (unlocked_of now u)) = (publicRepos u \<ge> 2)"
    "(''quickdraw'' \<in> set (unlocked_of now u)) = (publicRepos u \<ge> 2)"
    "(''open-sourcerer'' \<in> set (unlocked_of now u)) = (publicRepos u \<ge> 5)"
    "(''heart-on-sleeve'' \<in> set (unlocked_of now u)) = (publicRepos u \<ge> 5)"
    "(''pair-extraordinaire'' \<in> set (unlocked_of now u)) = (followers u \<ge> 10)"
    "(''pull-shark'' \<in> set (unlocked_of now u)) = older_than_365_days now u"
    by (simp_all add: set_unlocked_of)
  have others: "set (unlocked_of now u) \<subseteq>
        {''yolo'', ''quickdraw'', ''open-sourcerer'', ''heart-on-sleeve'',
         ''pair-extraordinaire'', ''pull-shark''}"
    unfolding set_unlocked_of by auto
  have none: "followers u < 10 \<and> publicRepos u < 2 \<and> \<not> older_than_365_days now u
        \<longrightarrow> unlocked_of now u = []"
    using unlocked_of_empty by blast
  from stored members others none show ?thesis
    by (intro conjI)
qed

theorem simulateUnlockedAchievements_rule_table_witness:
  "followers (profile 1 3 (Some 0)) < 10 \<and> publicRepos (profile 1 3 (Some 0)) < 2
   \<and> \<not> older_than_365_days (365 * ms_per_day) (profile 1 3 (Some 0))
   \<and> unlocked_of (365 * ms_per_day) (profile 1 3 (Some 0)) = []
   \<and> (''pull-shark'' \<in> set (unlocked_of (365 * ms_per_day + 1) (profile 1 3 (Some 0))))"
proof -
  have h: "followers (profile 1 3 (Some 0)) < 10 \<and> publicRepos (profile 1 3 (Some 0)) < 2
      \<and> \<not> older_than_365_days (365 * ms_per_day) (profile 1 3 (Some 0))"
    by (simp add: profile_def older_than_365_days_def)
  have o: "older_than_365_days (365 * ms_per_day + 1) (profile 1 3 (Some 0))"
    by (simp add: profile_def older_than_365_days_def)
  from h o
    simulateUnlockedAchievements_rule_table
      [of "365 * ms_per_day" "profile 1 3 (Some 0)" initial_state]
    simulateUnlockedAchievements_rule_table
      [of "365 * ms_per_day + 1" "profile 1 3 (Some 0)" initial_state]
  show ?thesis by blast
qed

lemma getAchievementProgress_loaded:
  "userData st = Some u \<Longrightarrow> unlockedAchievements st = Some ul \<Longrightarrow>
   getAchievementProgress st a = progressOf (ach_id a) u (set ul)"
  by (simp add: getAchievementProgress_def progressOf_def ratio_percent_def mult.commute)

lemma getAchievementProgress_not_loaded:
  "userData st = None \<or> unlockedAchievements st = None \<Longrightarrow> getAchievementProgress st a = 0"
  by (auto simp: getAchievementProgress_def split: option.splits)

text \<open>
  Claim C2. With a profile and an unlocked list in the state, \<open>getAchievementProgress\<close>
  is the rule of the specification: 100 for an unlocked id, else the ratio
  \<open>publicRepos/2\<close>, \<open>followers/16\<close>, \<open>publicRepos/3\<close> or \<open>followers/10\<close> as a percentage,
  at most 99, and 25 or 0 for any other id. For \<open>pull-shark\<close> and nothing unlocked, 1
  repository gives 50 and 4 repositories give 99.
\<close>

theorem getAchievementProgress_is_progressOf:
  fixes st :: app_state and u :: UserData and ul :: "string list" and a :: Achievement
  assumes "userData st = Some u" and "unlockedAchievements st = Some ul"
  shows "getAchievementProgress st a = progressOf (ach_id a) u (set ul)
    \<and> (ach_id a \<in> set ul \<longrightarrow> getAchievementProgress st a = 100)
    \<and> (ach_id a \<notin> set ul \<and> ach_id a = ''pull-shark'' \<longrightarrow>
         getAchievementProgress st a = min (of_int (publicRepos u) / 2 * 100) 99)
    \<and> (ach_id a \<notin> set ul \<and> ach_id a = ''starstruck'' \<longrightarrow>
         getAchievementProgress st a = min (of_int (followers u) / 16 * 100) 99)
    \<and> (ach_id a \<notin> set ul \<and> ach_id a = ''open-sourcerer'' \<longrightarrow>
         getAchievementProgress st a = min (of_int (publicRepos u) / 3 * 100) 99)
    \<and> (ach_id a \<notin> set ul \<and> ach_id a = ''pair-extraordinaire'' \<longrightarrow>
         getAchievementProgress st a = min (of_int (followers u) / 10 * 100) 99)
    \<and> (ach_id a \<notin> set ul \<and> ach_id a \<notin> {''pull-shark'', ''starstruck'', ''open-sourcerer'',
           ''pair-extraordinaire''} \<longrightarrow>
         getAchievementProgress st a = (if publicRepos u > 0 then 25 else 0))
    \<and> (ach_id a = ''pull-shark'' \<and> ul = [] \<and> publicRepos u = 1 \<longrightarrow>
         getAchievementProgress st a = 50)
    \<and> (ach_id a = ''pull-shark'' \<and> ul = [] \<and> publicRepos u = 4 \<longrightarrow>
         getAchievementProgress st a = 99 \<and> of_int (publicRepos u) / 2 * 100 = (200::rat))"
proof -
  have spec: "getAchievementProgress st a = progressOf (ach_id a) u (set ul)"
    using assms by (rule getAchievementProgress_loaded)
  have code: "getAchievementProgress st a =
     (if ach_id a \<in> set ul then 100
      else if ach_id a = ''pull-shark'' then min ((of_int (publicRepos u) / 2) * 100) 99
      else if ach_id a = ''starstruck'' then min ((of_int (followers u) / 16) * 100) 99
      else if ach_id a = ''open-sourcerer'' then min ((of_int (publicRepos u) / 3) * 100) 99
      else if ach_id a = ''pair-extraordinaire''
        then min ((of_int (followers u) / 10) * 100) 99
      else (if publicRepos u > 0 then 25 else 0))"
    using assms by (simp add: getAchievementProgress_def)
  have unlocked: "ach_id a \<in> set ul \<longrightarrow> getAchievementProgress st a = 100"
    by (clarsimp simp: code)
  have shark: "ach_id a \<notin> set ul \<and> ach_id a = ''pull-shark'' \<longrightarrow>
         getAchievementProgress st a = min (of_int (publicRepos u) / 2 * 100) 99"
    by (clarsimp simp: code)
  have star: "ach_id a \<notin> set ul \<and> ach_id a = ''starstruck'' \<longrightarrow>
         getAchievementProgress st a = min (of_int (followers u) / 16 * 100) 99"
    by (clarsimp simp: code)
  have sourcerer: "ach_id a \<notin> set ul \<and> ach_id a = ''open-sourcerer'' \<longrightarrow>
         getAchievementProgress st a = min (of_int (publicRepos u) / 3 * 100) 99"
    by (clarsimp simp: code)
  have pair: "ach_id a \<notin> set ul \<and> ach_id a = ''pair-extraordinaire'' \<longrightarrow>
         getAchievementProgress st a = min (of_int (followers u) / 10 * 100) 99"
    by (clarsimp simp: code)
  have other: "ach_id a \<notin> set ul \<and> ach_id a \<notin> {''pull-shark'', ''starstruck'',
           ''open-sourcerer'', ''pair-extraordinaire''} \<longrightarrow>
         getAchievementProgress st a = (if publicRepos u > 0 then 25 else 0)"
    by (clarsimp simp: code)
  have one: "ach_id a = ''pull-shark'' \<and> ul = [] \<and> publicRepos u = 1 \<longrightarrow>
         getAchievementProgress st a = 50"
    by (clarsimp simp: code)
  have four: "ach_id a = ''pull-shark'' \<and> ul = [] \<and> publicRepos u = 4 \<longrightarrow>
         getAchievementProgress st a = 99 \<and> of_int (publicRepos u) / 2 * 100 = (200::rat)"
    by (clarsimp simp: code)
  from spec unlocked shark star sourcerer pair other one four show ?thesis
    by (intro conjI)
qed

theorem getAchievementProgress_is_progressOf_witness:
  "userData (loaded (profile 4 0 None) []) = Some (profile 4 0 None)
   \<and> unlockedAchievements (loaded (profile 4 0 None) []) = Some []
   \<and> getAchievementProgress (loaded (profile 4 0 None) []) \<lparr>ach_id = ''pull-shark''\<rparr> = 99
   \<and> getAchievementProgress (loaded (profile 1 0 None) []) \<lparr>ach_id = ''pull-shark''\<rparr> = 50
   \<and> getAchievementProgress (loaded (profile 0 0 None) [''yolo'']) \<lparr>ach_id = ''yolo''\<rparr> = 100"
proof -
  have h4: "userData (loaded (profile 4 0 None) []) = Some (profile 4 0 None)"
      "unlockedAchievements (loaded (profile 4 0 None) []) = Some []"
    by (simp_all add: loaded_def)
  have h1: "userData (loaded (profile 1 0 None) []) = Some (profile 1 0 None)"
      "unlockedAchievements (loaded (profile 1 0 None) []) = Some []"
    by (simp_all add: loaded_def)
  have h0: "userData (loaded (profile 0 0 None) [''yolo'']) = Some (profile 0 0 None)"
      "unlockedAchievements (loaded (profile 0 0 None) [''yolo'']) = Some [''yolo'']"
    by (simp_all add: loaded_def)
  have p: "publicRepos (profile 4 0 None) = 4" "publicRepos (profile 1 0 None) = 1"
    by (simp_all add: profile_def)
  from getAchievementProgress_is_progressOf [OF h4, of "\<lparr>ach_id = ''pull-shark''\<rparr>"]
    getAchievementProgress_is_progressOf [OF h1, of "\<lparr>ach_id = ''pull-shark''\<rparr>"]
    getAchievementProgress_is_progressOf [OF h0, of "\<lparr>ach_id = ''yolo''\<rparr>"]
    h4 p
  show ?thesis by simp
qed

lemma ratio_percent_range:
  assumes "0 \<le> n" "0 < d"
  shows "0 \<le> ratio_percent n d" and "ratio_percent n d \<le> 99"
proof -
  have "(0::rat) \<le> of_int (100 * n) / of_int d"
    using assms by (intro divide_nonneg_pos) simp_all
  then show "0 \<le> ratio_percent n d"
    by (simp add: ratio_percent_def)
  show "ratio_percent n d \<le> 99"
    by (simp add: ratio_percent_def)
qed

lemma progressOf_range:
  assumes "0 \<le> publicRepos p" "0 \<le> followers p"
  shows "0 \<le> progressOf i p unlocked \<and> progressOf i p unlocked \<le> 100"
proof -
  have r: "0 \<le> ratio_percent n d \<and> ratio_percent n d \<le> 100" if "0 \<le> n" "0 < d" for n d
    using ratio_percent_range [OF that] by simp
  show ?thesis
    unfolding progressOf_def
    using r [of "publicRepos p" 2] r [of "publicRepos p" 3] r [of "followers p" 16]
      r [of "followers p" 10] assms
    by (simp del: of_int_mult)
qed

lemma one_third_percent_not_integer: "(100 / 3 :: rat) \<notin> \<int>"
proof
  assume "(100 / 3 :: rat) \<in> \<int>"
  then obtain k :: int where k: "(100 / 3 :: rat) = of_int k"
    by (auto elim: Ints_cases)
  then have "(of_int (3 * k) :: rat) = of_int 100"
    by simp
  then have "3 * k = 100"
    by (simp only: of_int_eq_iff)
  then show False
    by presburger
qed

text \<open>
  Claim C3, as stated: the progress is an integer between 0 and 100. The source does not
  round: for \<open>open-sourcerer\<close>, one public repository and nothing unlocked the value is
  \<open>(1 / 3) * 100\<close>, which is no integer.
\<close>

theorem getAchievementProgress_integer_counterexample:
  "\<not> (getAchievementProgress (loaded (profile 1 0 (Some 0)) []) \<lparr>ach_id = ''open-sourcerer''\<rparr> \<in> \<int>
      \<and> 0 \<le> getAchievementProgress (loaded (profile 1 0 (Some 0)) [])
               \<lparr>ach_id = ''open-sourcerer''\<rparr>
      \<and> getAchievementProgress (loaded (profile 1 0 (Some 0)) [])
               \<lparr>ach_id = ''open-sourcerer''\<rparr> \<le> 100)"
proof -
  have "getAchievementProgress (loaded (profile 1 0 (Some 0)) [])
          \<lparr>ach_id = ''open-sourcerer''\<rparr> = 100 / 3"
    by (simp add: getAchievementProgress_def loaded_def profile_def)
  then show ?thesis
    using one_third_percent_not_integer by (simp only: not_False_eq_True simp_thms)
qed

text \<open>
  Claim C3, amended. For a profile whose \<open>publicRepos\<close> and \<open>followers\<close> are not
  negative, the progress is a rational number between 0 and 100 (it need not be an
  integer); for \<open>starstruck\<close>, 8 followers and nothing unlocked it is 50.
\<close>

theorem getAchievementProgress_range:
  fixes st :: app_state and a :: Achievement and n :: int and c :: time_value
  assumes "\<forall>u. userData st = Some u \<longrightarrow> 0 \<le> publicRepos u \<and> 0 \<le> followers u"
  shows "0 \<le> getAchievementProgress st a \<and> getAchievementProgress st a \<le> 100
    \<and> getAchievementProgress (loaded (profile n 8 c) []) \<lparr>ach_id = ''starstruck''\<rparr> = 50"
proof -
  have range: "0 \<le> getAchievementProgress st a \<and> getAchievementProgress st a \<le> 100"
  proof (cases "userData st = None \<or> unlockedAchievements st = None")
    case True
    then show ?thesis
      by (simp add: getAchievementProgress_not_loaded)
  next
    case False
    then obtain u ul where l: "userData st = Some u" "unlockedAchievements st = Some ul"
      by auto
    with assms have "0 \<le> publicRepos u" "0 \<le> followers u"
      by simp_all
    then show ?thesis
      unfolding getAchievementProgress_loaded [OF l] by (rule progressOf_range)
  qed
  have star: "getAchievementProgress (loaded (profile n 8 c) []) \<lparr>ach_id = ''starstruck''\<rparr> = 50"
    by (simp add: getAchievementProgress_def loaded_def profile_def)
  from range star show ?thesis
    by (intro conjI) simp_all
qed

theorem getAchievementProgress_range_witness:
  "userData (loaded (profile 2 7 None) []) = Some (profile 2 7 None)
   \<and> 0 \<le> publicRepos (profile 2 7 None) \<and> 0 \<le> followers (profile 2 7 None)
   \<and> 0 \<le> getAchievementProgress (loaded (profile 2 7 None) []) \<lparr>ach_id = ''open-sourcerer''\<rparr>
   \<and> getAchievementProgress (loaded (profile 2 7 None) []) \<lparr>ach_id = ''open-sourcerer''\<rparr> \<le> 100"
proof -
  have l: "userData (loaded (profile 2 7 None) []) = Some (profile 2 7 None)"
    by (simp add: loaded_def)
  have p: "0 \<le> publicRepos (profile 2 7 None)" "0 \<le> followers (profile 2 7 None)"
    by (simp_all add: profile_def)
  have h: "\<forall>u. userData (loaded (profile 2 7 None) []) = Some u
      \<longrightarrow> 0 \<le> publicRepos u \<and> 0 \<le> followers u"
    using l p by simp
  from getAchievementProgress_range [OF h, of "\<lparr>ach_id = ''open-sourcerer''\<rparr>"] l p
  show ?thesis by blast
qed

text \<open>
  Claim C10. Without a profile record, or without an unlocked list, the progress of every
  achievement is 0, also for an id that is in the unlocked list or has the default 25.
\<close>

theorem getAchievementProgress_nothing_loaded:
  fixes st :: app_state and a :: Achievement
  assumes "userData st = None \<or> unlockedAchievements st = None"
  shows "getAchievementProgress st a = 0"
  using assms by (auto simp: getAchievementProgress_def split: option.splits)

theorem getAchievementProgress_nothing_loaded_witness:
  "(userData (initial_state\<lparr>unlockedAchievements := Some [''yolo'']\<rparr>) = None
      \<or> unlockedAchievements (initial_state\<lparr>unlockedAchievements := Some [''yolo'']\<rparr>) = None)
   \<and> getAchievementProgress (initial_state\<lparr>unlockedAchievements := Some [''yolo'']\<rparr>)
        \<lparr>ach_id = ''yolo''\<rparr> = 0
   \<and> getAchievementProgress ((loaded (profile 3 0 None) [])\<lparr>unlockedAchievements := None\<rparr>)
        \<lparr>ach_id = ''quickdraw''\<rparr> = 0"
proof -
  have h1: "userData (initial_state\<lparr>unlockedAchievements := Some [''yolo'']\<rparr>) = None
      \<or> unlockedAchievements (initial_state\<lparr>unlockedAchievements := Some [''yolo'']\<rparr>) = None"
    by (simp add: initial_state_def)
  have h2: "userData ((loaded (profile 3 0 None) [])\<lparr>unlockedAchievements := None\<rparr>) = None
      \<or> unlockedAchievements ((loaded (profile 3 0 None) [])\<lparr>unlockedAchievements := None\<rparr>)
          = None"
    by simp
  from getAchievementProgress_nothing_loaded [OF h1, of "\<lparr>ach_id = ''yolo''\<rparr>"]
    getAchievementProgress_nothing_loaded [OF h2, of "\<lparr>ach_id = ''quickdraw''\<rparr>"] h1
  show ?thesis by blast
qed

section \<open>Properties of the two fetches\<close>

text \<open>
  A successful fetch does replace both slots: the profile of the specification's scenario
  (10 repositories, 20 followers, two years old) unlocks all six ids.
\<close>

lemma fetchUserData_octocat:
  "unlockedAchievements
     (fetchUserData (730 * ms_per_day) ''octocat''
        (FetchResolved (http_ok \<lparr>api_login = ''octocat'', avatar_url = [], public_repos = 10,
           api_followers = 20, api_following = 0, created_at = Some 0\<rparr>))
        initial_state)
   = Some [''yolo'', ''quickdraw'', ''open-sourcerer'', ''heart-on-sleeve'',
           ''pair-extraordinaire'', ''pull-shark'']"
  by (simp add: fetchUserData_def http_ok_def setIsLoading_def setUserData_def
      simulateUnlockedAchievements_def toast_success_def unlocked_of_def daysOld_def
      ms_per_day_def Let_def)

lemma fetchUserData_failed:
  assumes "fetch_failed outcome"
  shows "userData (fetchUserData now username outcome st) = userData st"
    and "unlockedAchievements (fetchUserData now username outcome st) = unlockedAchievements st"
  using assms
  by (auto simp: fetch_failed_def fetchUserData_def fetchUserData_catch_def setIsLoading_def
      toast_error_def Let_def split: fetch_outcome.splits json_result.splits)

lemma fetchRepositories_failed:
  assumes "fetch_failed outcome"
  shows "repos (fetchRepositories username outcome st) = repos st"
    and "store (fetchRepositories username outcome st) = store st"
  using assms
  by (auto simp: fetch_failed_def fetchRepositories_def Let_def
      split: fetch_outcome.splits json_result.splits)

text \<open>
  Claim C5. A failed fetch leaves the earlier state as it was: when the profile request
  fails (the promise rejects, the status is 404 or another failure, or the body cannot be
  read), the stored profile record and the stored unlocked list are the ones from before;
  when the repository request fails, the state holds the same array with the same
  repositories as before.
\<close>

theorem failed_fetch_keeps_state:
  fixes now :: int and username owner :: string and st :: app_state and rst :: repo_list_state
    and outcome :: "api_user fetch_outcome" and routcome :: "Repository list fetch_outcome"
  shows "(fetch_failed outcome \<longrightarrow>
            userData (fetchUserData now username outcome st) = userData st
          \<and> unlockedAchievements (fetchUserData now username outcome st)
              = unlockedAchievements st)
       \<and> (fetch_failed routcome \<longrightarrow>
            repos (fetchRepositories owner routcome rst) = repos rst
          \<and> store (fetchRepositories owner routcome rst) = store rst
          \<and> repos_value (fetchRepositories owner routcome rst) = repos_value rst)"
  using fetchUserData_failed [of outcome now username st]
    fetchRepositories_failed [of routcome owner rst]
  by (simp add: repos_value_def)

theorem failed_fetch_keeps_state_witness:
  "fetch_failed (FetchResolved (http_error 404) :: api_user fetch_outcome)
   \<and> fetch_failed (FetchRejected :: api_user fetch_outcome)
   \<and> fetch_failed (FetchResolved (http_error 500) :: Repository list fetch_outcome)
   \<and> userData (fetchUserData 0 ''doesnotexist123456'' (FetchResolved (http_error 404))
        (loaded (profile 10 20 (Some 0)) [''yolo''])) = Some (profile 10 20 (Some 0))
   \<and> unlockedAchievements (fetchUserData 0 ''doesnotexist123456'' FetchRejected
        (loaded (profile 10 20 (Some 0)) [''yolo''])) = Some [''yolo'']
   \<and> repos_value (fetchRepositories ''octocat'' (FetchResolved (http_error 500))
        (showing three_repos)) = three_repos"
proof -
  have f: "fetch_failed (FetchResolved (http_error 404) :: api_user fetch_outcome)"
    "fetch_failed (FetchRejected :: api_user fetch_outcome)"
    "fetch_failed (FetchResolved (http_error 500) :: Repository list fetch_outcome)"
    by (simp_all add: fetch_failed_def http_error_def)
  have s: "userData (loaded (profile 10 20 (Some 0)) [''yolo'']) = Some (profile 10 20 (Some 0))"
    "unlockedAchievements (loaded (profile 10 20 (Some 0)) [''yolo'']) = Some [''yolo'']"
    "repos_value (showing three_repos) = three_repos"
    by (simp_all add: loaded_def repos_value_def showing_def)
  from f s
    failed_fetch_keeps_state [of "FetchResolved (http_error 404)" 0 "''doesnotexist123456''"
      "loaded (profile 10 20 (Some 0)) [''yolo'']" "FetchResolved (http_error 500)"
      "''octocat''" "showing three_repos"]
    failed_fetch_keeps_state [of FetchRejected 0 "''doesnotexist123456''"
      "loaded (profile 10 20 (Some 0)) [''yolo'']" "FetchResolved (http_error 500)"
      "''octocat''" "showing three_repos"]
  show ?thesis by simp
qed

lemma fetchUserData_not_ok:
  assumes "\<not> ok r"
  shows "fetchUserData now username (FetchResolved r) st =
     st\<lparr>isLoading := False,
        toasts := toasts st @
          [if status r = 404
           then ToastError ''User not found'' (Some (not_found_description username))
           else ToastError ''Failed to fetch user data'' (Some ''Please try again later.'')]\<rparr>"
  using assms
  by (simp add: fetchUserData_def setIsLoading_def toast_error_def Let_def)

lemma fetchUserData_caught:
  assumes "outcome = FetchRejected \<or> (\<exists>r. outcome = FetchResolved r \<and> ok r \<and> json r = JsonRejected)"
  shows "fetchUserData now username outcome st =
     st\<lparr>isLoading := False,
        toasts := toasts st @
          [ToastError ''Network error'' (Some ''Could not connect to GitHub API.'')]\<rparr>"
  using assms
  by (auto simp: fetchUserData_def fetchUserData_catch_def setIsLoading_def toast_error_def Let_def)

text \<open>
  Claim C6. The failures of the profile fetch: a response that is not a success and has
  status 404 is reported as \<open>User not found\<close>, with the username inside the message; a
  response that is not a success and has any other status as \<open>Failed to fetch user data\<close>
  with \<open>Please try again later.\<close>; a rejected request (no status was obtained) as
  \<open>Network error\<close>, and so is a body that cannot be read. In each case the profile record
  of the state stays what it was: the fetch produces none.
\<close>

theorem fetchUserData_failures:
  fixes now :: int and username :: string and st :: app_state and r :: "api_user response"
  shows "(\<not> ok r \<and> status r = 404 \<longrightarrow>
            toasts (fetchUserData now username (FetchResolved r) st) =
              toasts st @ [ToastError ''User not found''
                 (Some (''The username \"'' @ username @ ''\" does not exist on GitHub.''))]
          \<and> userData (fetchUserData now username (FetchResolved r) st) = userData st)
       \<and> (\<not> ok r \<and> status r \<noteq> 404 \<longrightarrow>
            toasts (fetchUserData now username (FetchResolved r) st) =
              toasts st @ [ToastError ''Failed to fetch user data''
                 (Some ''Please try again later.'')]
          \<and> userData (fetchUserData now username (FetchResolved r) st) = userData st)
       \<and> toasts (fetchUserData now username FetchRejected st) =
              toasts st @ [ToastError ''Network error''
                 (Some ''Could not connect to GitHub API.'')]
       \<and> userData (fetchUserData now username FetchRejected st) = userData st
       \<and> (ok r \<and> json r = JsonRejected \<longrightarrow>
            toasts (fetchUserData now username (FetchResolved r) st) =
              toasts st @ [ToastError ''Network error''
                 (Some ''Could not connect to GitHub API.'')]
          \<and> userData (fetchUserData now username (FetchResolved r) st) = userData st)"
proof -
  have nf: "\<not> ok r \<and> status r = 404 \<longrightarrow>
            toasts (fetchUserData now username (FetchResolved r) st) =
              toasts st @ [ToastError ''User not found''
                 (Some (''The username \"'' @ username @ ''\" does not exist on GitHub.''))]
          \<and> userData (fetchUserData now username (FetchResolved r) st) = userData st"
    by (simp add: fetchUserData_not_ok not_found_description_def)
  have se: "\<not> ok r \<and> status r \<noteq> 404 \<longrightarrow>
            toasts (fetchUserData now username (FetchResolved r) st) =
              toasts st @ [ToastError ''Failed to fetch user data''
                 (Some ''Please try again later.'')]
          \<and> userData (fetchUserData now username (FetchResolved r) st) = userData st"
    by (simp add: fetchUserData_not_ok)
  have ne: "toasts (fetchUserData now username FetchRejected st) =
              toasts st @ [ToastError ''Network error''
                 (Some ''Could not connect to GitHub API.'')]"
      "userData (fetchUserData now username FetchRejected st) = userData st"
    by (simp_all add: fetchUserData_caught)
  have js: "ok r \<and> json r = JsonRejected \<longrightarrow>
            toasts (fetchUserData now username (FetchResolved r) st) =
              toasts st @ [ToastError ''Network error''
                 (Some ''Could not connect to GitHub API.'')]
          \<and> userData (fetchUserData now username (FetchResolved r) st) = userData st"
    by (simp add: fetchUserData_caught)
  from nf se ne js show ?thesis
    by (intro conjI)
qed

theorem fetchUserData_failures_witness:
  "\<not> ok (http_error 404 :: api_user response) \<and> status (http_error 404 :: api_user response) = 404
   \<and> \<not> ok (http_error 500 :: api_user response) \<and> status (http_error 500 :: api_user response) \<noteq> 404
   \<and> ok (\<lparr>ok = True, status = 200, json = JsonRejected\<rparr> :: api_user response)
   \<and> toasts (fetchUserData 0 ''nobody'' (FetchResolved (http_error 404)) initial_state) =
        [ToastError ''User not found''
           (Some ''The username \"nobody\" does not exist on GitHub.'')]
   \<and> toasts (fetchUserData 0 ''nobody'' (FetchResolved (http_error 500)) initial_state) =
        [ToastError ''Failed to fetch user data'' (Some ''Please try again later.'')]
   \<and> toasts (fetchUserData 0 ''nobody''
        (FetchResolved \<lparr>ok = True, status = 200, json = JsonRejected\<rparr>) initial_state) =
        [ToastError ''Network error'' (Some ''Could not connect to GitHub API.'')]
   \<and> userData (fetchUserData 0 ''nobody'' (FetchResolved (http_error 404)) initial_state) = None"
proof -
  have h: "\<not> ok (http_error 404 :: api_user response)"
    "status (http_error 404 :: api_user response) = 404"
    "\<not> ok (http_error 500 :: api_user response)"
    "status (http_error 500 :: api_user response) \<noteq> 404"
    "ok (\<lparr>ok = True, status = 200, json = JsonRejected\<rparr> :: api_user response)"
    "json (\<lparr>ok = True, status = 200, json = JsonRejected\<rparr> :: api_user response) = JsonRejected"
    by (simp_all add: http_error_def)
  have i: "toasts initial_state = []" "userData initial_state = None"
    by (simp_all add: initial_state_def)
  from fetchUserData_failures [of "http_error 404" 0 "''nobody''" initial_state]
    fetchUserData_failures [of "http_error 500" 0 "''nobody''" initial_state]
    fetchUserData_failures [of "\<lparr>ok = True, status = 200, json = JsonRejected\<rparr>" 0 "''nobody''"
      initial_state]
    h i
  show ?thesis by simp
qed

section \<open>Properties of the relative dates\<close>

lemma number_toString_1: "number_toString 1 = ''1''"
  by code_simp

text \<open>
  Claim C4. For a valid timestamp, with \<open>d\<close> the whole days between it and now (rounded
  down), \<open>formatDate\<close> gives \<open>Updated today\<close> for \<open>d = 0\<close>, \<open>Updated yesterday\<close> for
  \<open>d = 1\<close>, \<open>d\<close> days for any other \<open>d\<close> below 7, \<open>d div 7\<close> weeks below 30,
  \<open>d div 30\<close> months below 365 and \<open>d div 365\<close> years from 365 on; exactly 7 days give
  \<open>Updated 1 weeks ago\<close>.
\<close>

theorem formatDate_forms:
  fixes now t :: int
  shows "((now - t) div ms_per_day = 0 \<longrightarrow> formatDate now (Some t) = ''Updated today'')
    \<and> ((now - t) div ms_per_day = 1 \<longrightarrow> formatDate now (Some t) = ''Updated yesterday'')
    \<and> ((now - t) div ms_per_day < 7 \<and> (now - t) div ms_per_day \<notin> {0, 1} \<longrightarrow>
         formatDate now (Some t) =
           ''Updated '' @ number_toString ((now - t) div ms_per_day) @ '' days ago'')
    \<and> (7 \<le> (now - t) div ms_per_day \<and> (now - t) div ms_per_day < 30 \<longrightarrow>
         formatDate now (Some t) =
           ''Updated '' @ number_toString ((now - t) div ms_per_day div 7) @ '' weeks ago'')
    \<and> (30 \<le> (now - t) div ms_per_day \<and> (now - t) div ms_per_day < 365 \<longrightarrow>
         formatDate now (Some t) =
           ''Updated '' @ number_toString ((now - t) div ms_per_day div 30) @ '' months ago'')
    \<and> (365 \<le> (now - t) div ms_per_day \<longrightarrow>
         formatDate now (Some t) =
           ''Updated '' @ number_toString ((now - t) div ms_per_day div 365) @ '' years ago'')
    \<and> (now - t = 7 * ms_per_day \<longrightarrow> formatDate now (Some t) = ''Updated 1 weeks ago'')"
proof -
  define d where "d = (now - t) div ms_per_day"
  have f: "formatDate now (Some t) =
     (if d = 0 then ''Updated today''
      else if d = 1 then ''Updated yesterday''
      else if d < 7 then ''Updated '' @ number_toString d @ '' days ago''
      else if d < 30 then ''Updated '' @ number_toString (d div 7) @ '' weeks ago''
      else if d < 365 then ''Updated '' @ number_toString (d div 30) @ '' months ago''
      else ''Updated '' @ number_toString (d div 365) @ '' years ago'')"
    by (simp add: formatDate_def d_def Let_def)
  have today: "d = 0 \<longrightarrow> formatDate now (Some t) = ''Updated today''"
    by (simp add: f)
  have yesterday: "d = 1 \<longrightarrow> formatDate now (Some t) = ''Updated yesterday''"
    by (simp add: f)
  have days: "d < 7 \<and> d \<notin> {0, 1} \<longrightarrow>
      formatDate now (Some t) = ''Updated '' @ number_toString d @ '' days ago''"
    by (simp add: f)
  have weeks: "7 \<le> d \<and> d < 30 \<longrightarrow>
      formatDate now (Some t) = ''Updated '' @ number_toString (d div 7) @ '' weeks ago''"
    by (simp add: f)
  have months: "30 \<le> d \<and> d < 365 \<longrightarrow>
      formatDate now (Some t) = ''Updated '' @ number_toString (d div 30) @ '' months ago''"
    by (simp add: f)
  have years: "365 \<le> d \<longrightarrow>
      formatDate now (Some t) = ''Updated '' @ number_toString (d div 365) @ '' years ago''"
    by (simp add: f)
  have seven: "now - t = 7 * ms_per_day \<longrightarrow> formatDate now (Some t) = ''Updated 1 weeks ago''"
  proof
    assume "now - t = 7 * ms_per_day"
    then have "d = 7"
      by (simp add: d_def ms_per_day_def)
    then show "formatDate now (Some t) = ''Updated 1 weeks ago''"
      by (simp add: f number_toString_1)
  qed
  from today yesterday days weeks months years seven show ?thesis
    unfolding d_def by (intro conjI)
qed

theorem formatDate_forms_witness:
  "formatDate (7 * ms_per_day) (Some 0) = ''Updated 1 weeks ago''
   \<and> formatDate (7 * ms_per_day - 1) (Some 0) = ''Updated 6 days ago''
   \<and> formatDate (ms_per_day - 1) (Some 0) = ''Updated today''
   \<and> formatDate (ms_per_day) (Some 0) = ''Updated yesterday''
   \<and> formatDate 0 (Some ms_per_day) = ''Updated -1 days ago''
   \<and> formatDate (29 * ms_per_day) (Some 0) = ''Updated 4 weeks ago''
   \<and> formatDate (30 * ms_per_day) (Some 0) = ''Updated 1 months ago''
   \<and> formatDate (364 * ms_per_day) (Some 0) = ''Updated 12 months ago''
   \<and> formatDate (365 * ms_per_day) (Some 0) = ''Updated 1 years ago''"
proof -
  have n: "number_toString 1 = ''1''" "number_toString 6 = ''6''"
    "number_toString (- 1) = ''-1''" "number_toString 4 = ''4''" "number_toString 12 = ''12''"
    by code_simp+
  have d: "(7 * ms_per_day - 0) div ms_per_day = 7"
    "(7 * ms_per_day - 1 - 0) div ms_per_day = 6"
    "(ms_per_day - 1 - 0) div ms_per_day = 0"
    "(ms_per_day - 0) div ms_per_day = 1"
    "(0 - ms_per_day) div ms_per_day = - 1"
    "(29 * ms_per_day - 0) div ms_per_day = 29"
    "(30 * ms_per_day - 0) div ms_per_day = 30"
    "(364 * ms_per_day - 0) div ms_per_day = 364"
    "(365 * ms_per_day - 0) div ms_per_day = 365"
    by (simp_all add: ms_per_day_def)
  from formatDate_forms [of "7 * ms_per_day" 0]
    formatDate_forms [of "7 * ms_per_day - 1" 0]
    formatDate_forms [of "ms_per_day - 1" 0]
    formatDate_forms [of "ms_per_day" 0]
    formatDate_forms [of 0 "ms_per_day"]
    formatDate_forms [of "29 * ms_per_day" 0]
    formatDate_forms [of "30 * ms_per_day" 0]
    formatDate_forms [of "364 * ms_per_day" 0]
    formatDate_forms [of "365 * ms_per_day" 0]
  show ?thesis
    unfolding d by (simp add: n)
qed

section \<open>Properties of the sort\<close>

lemma mset_insert_sorted: "mset (insert_sorted cmp x ys) = add_mset x (mset ys)"
  by (induction ys) simp_all

lemma set_insert_sorted: "set (insert_sorted cmp x ys) = insert x (set ys)"
  by (induction ys) auto

lemma array_sort_Nil: "array_sort f [] = []"
  by (simp add: array_sort_def)

lemma array_sort_Cons:
  "array_sort f (x # xs) = insert_sorted (SortCompare f) x (array_sort f xs)"
  by (simp add: array_sort_def)

lemma mset_array_sort: "mset (array_sort f xs) = mset xs"
  by (induction xs) (simp_all add: array_sort_Nil array_sort_Cons mset_insert_sorted)

lemma set_array_sort: "set (array_sort f xs) = set xs"
  using mset_array_sort [of f xs] by (metis set_mset_mset)

lemma consistent_on_subset: "consistent_on cmp A \<Longrightarrow> B \<subseteq> A \<Longrightarrow> consistent_on cmp B"
  unfolding consistent_on_def by blast

lemma consistent_on_total:
  "consistent_on cmp A \<Longrightarrow> x \<in> A \<Longrightarrow> y \<in> A \<Longrightarrow> \<not> cmp x y \<le> 0 \<Longrightarrow> cmp y x \<le> 0"
  unfolding consistent_on_def by blast

lemma consistent_on_trans:
  "consistent_on cmp A \<Longrightarrow> x \<in> A \<Longrightarrow> y \<in> A \<Longrightarrow> z \<in> A \<Longrightarrow>
   cmp x y \<le> 0 \<Longrightarrow> cmp y z \<le> 0 \<Longrightarrow> cmp x z \<le> 0"
  unfolding consistent_on_def by blast

lemma sorted_insert_sorted:
  assumes "consistent_on cmp (insert x (set ys))"
    and "sorted_wrt (\<lambda>a b. cmp a b \<le> 0) ys"
  shows "sorted_wrt (\<lambda>a b. cmp a b \<le> 0) (insert_sorted cmp x ys)"
  using assms
proof (induction ys)
  case Nil
  then show ?case by simp
next
  case (Cons y ys)
  let ?A = "insert x (set (y # ys))"
  note con = Cons.prems(1)
  have xA: "x \<in> ?A" and yA: "y \<in> ?A" by simp_all
  have sub: "consistent_on cmp (insert x (set ys))"
    by (rule consistent_on_subset [OF con]) auto
  have tl: "sorted_wrt (\<lambda>a b. cmp a b \<le> 0) ys" and hd: "\<forall>z\<in>set ys. cmp y z \<le> 0"
    using Cons.prems(2) by simp_all
  show ?case
  proof (cases "cmp x y \<le> 0")
    case True
    have "cmp x z \<le> 0" if "z \<in> set ys" for z
    proof -
      have "z \<in> ?A" using that by simp
      moreover have "cmp y z \<le> 0" using hd that by simp
      ultimately show ?thesis
        using consistent_on_trans [OF con xA yA _ True] by blast
    qed
    with True hd tl show ?thesis by simp
  next
    case False
    have "cmp y x \<le> 0"
      by (rule consistent_on_total [OF con xA yA False])
    moreover have "sorted_wrt (\<lambda>a b. cmp a b \<le> 0) (insert_sorted cmp x ys)"
      by (rule Cons.IH [OF sub tl])
    ultimately show ?thesis
      using False hd by (simp add: set_insert_sorted)
  qed
qed

lemma sorted_array_sort:
  assumes "consistent_on (SortCompare f) (set xs)"
  shows "sorted_wrt (\<lambda>a b. SortCompare f a b \<le> 0) (array_sort f xs)"
  using assms
proof (induction xs)
  case Nil
  then show ?case by (simp add: array_sort_Nil)
next
  case (Cons x xs)
  have "consistent_on (SortCompare f) (set xs)"
    using Cons.prems by (rule consistent_on_subset) auto
  then have "sorted_wrt (\<lambda>a b. SortCompare f a b \<le> 0) (array_sort f xs)"
    by (rule Cons.IH)
  moreover have "consistent_on (SortCompare f) (insert x (set (array_sort f xs)))"
    using Cons.prems by (simp add: set_array_sort)
  ultimately show ?case
    unfolding array_sort_Cons by (intro sorted_insert_sorted)
qed



lemma insert_sorted_head:
  "sorted_wrt (\<lambda>a b. cmp a b \<le> 0) (x # ys) \<Longrightarrow> insert_sorted cmp x ys = x # ys"
  by (cases ys) simp_all

lemma array_sort_sorted:
  "sorted_wrt (\<lambda>a b. SortCompare f a b \<le> 0) xs \<Longrightarrow> array_sort f xs = xs"
proof (induction xs)
  case Nil
  then show ?case by (simp add: array_sort_Nil)
next
  case (Cons x xs)
  then have "array_sort f xs = xs" by simp
  then show ?case
    unfolding array_sort_Cons using Cons.prems by (simp add: insert_sorted_head)
qed

subsection \<open>The three comparison functions\<close>

lemma SortCompare_Stars:
  "SortCompare (compareRepos lc Stars) a b = stargazers_count b - stargazers_count a"
  by (simp add: SortCompare_def compareRepos_def)

lemma SortCompare_Name:
  "SortCompare (compareRepos lc Name) a b = lc (name a) (name b)"
  by (simp add: SortCompare_def compareRepos_def)

lemma SortCompare_Updated:
  "updated_at a = Some ta \<Longrightarrow> updated_at b = Some tb \<Longrightarrow>
   SortCompare (compareRepos lc Updated) a b = tb - ta"
  by (simp add: SortCompare_def compareRepos_def)

lemma SortCompare_in_order:
  assumes "mode = Updated \<longrightarrow> updated_at a \<noteq> None \<and> updated_at b \<noteq> None"
  shows "(SortCompare (compareRepos lc mode) a b \<le> 0) = in_order lc mode a b"
proof (cases mode)
  case Updated
  with assms obtain ta tb where "updated_at a = Some ta" "updated_at b = Some tb"
    by auto
  with Updated show ?thesis
    by (simp add: SortCompare_Updated in_order_def)
next
  case Stars
  then show ?thesis by (simp add: SortCompare_Stars in_order_def)
next
  case Name
  then show ?thesis by (simp add: SortCompare_Name in_order_def)
qed


lemma consistent_compareRepos:
  assumes valid: "mode = Updated \<longrightarrow> (\<forall>r\<in>set rs. updated_at r \<noteq> None)"
    and lc: "mode = Name \<longrightarrow> consistent_on lc (name ` set rs)"
  shows "consistent_on (SortCompare (compareRepos lc mode)) (set rs)"
proof -
  have io: "(SortCompare (compareRepos lc mode) a b \<le> 0) = in_order lc mode a b"
    if "a \<in> set rs" "b \<in> set rs" for a b
    using valid that by (intro SortCompare_in_order) simp
  have total: "in_order lc mode a b \<or> in_order lc mode b a"
    if "a \<in> set rs" "b \<in> set rs" for a b
  proof (cases mode)
    case Name
    with lc have "consistent_on lc (name ` set rs)" by simp
    from consistent_on_total [OF this, of "name a" "name b"] that Name show ?thesis
      by (auto simp: in_order_def)
  qed (auto simp: in_order_def)
  have trans: "in_order lc mode a c"
    if "a \<in> set rs" "b \<in> set rs" "c \<in> set rs" "in_order lc mode a b" "in_order lc mode b c"
    for a b c
  proof (cases mode)
    case Name
    with lc have "consistent_on lc (name ` set rs)" by simp
    from consistent_on_trans [OF this, of "name a" "name b" "name c"] that Name show ?thesis
      by (simp add: in_order_def)
  qed (use that in \<open>auto simp: in_order_def\<close>)
  show ?thesis
    unfolding consistent_on_def using io total trans by blast
qed









text \<open>
  Claim C8. Sorting by name is idempotent: sorting the sorted list again gives the same
  list, for a collation that is consistent on the names at hand.
\<close>

theorem sortedRepos_name_idempotent:
  fixes lc :: "string \<Rightarrow> string \<Rightarrow> int" and rs :: "Repository list"
  assumes "consistent_on lc (name ` set rs)"
  shows "sortedRepos lc Name (sortedRepos lc Name rs) = sortedRepos lc Name rs"
proof -
  have "consistent_on (SortCompare (compareRepos lc Name)) (set rs)"
    using assms by (intro consistent_compareRepos) simp_all
  then have "sorted_wrt (\<lambda>a b. SortCompare (compareRepos lc Name) a b \<le> 0)
      (array_sort (compareRepos lc Name) rs)"
    by (rule sorted_array_sort)
  then show ?thesis
    unfolding sortedRepos_def by (rule array_sort_sorted)
qed

theorem sortedRepos_name_idempotent_witness:
  "consistent_on codeunit_compare (name ` set three_repos)
   \<and> sortedRepos codeunit_compare Name three_repos
       = [repo ''a'' 7 100, repo ''b'' 5 300, repo ''b'' 5 200]
   \<and> sortedRepos codeunit_compare Name (sortedRepos codeunit_compare Name three_repos)
       = [repo ''a'' 7 100, repo ''b'' 5 300, repo ''b'' 5 200]"
proof -
  have c: "consistent_on codeunit_compare (name ` set three_repos)"
    by (simp add: consistent_on_def three_repos_def repo_def)
  have v: "sortedRepos codeunit_compare Name three_repos
       = [repo ''a'' 7 100, repo ''b'' 5 300, repo ''b'' 5 200]"
    by (simp add: sortedRepos_def array_sort_def SortCompare_def compareRepos_def
        three_repos_def repo_def)
  from sortedRepos_name_idempotent [OF c] c v show ?thesis
    by simp
qed

text \<open>
  The spread matters: \<open>sort\<close> called on the array of the state itself would reorder it.
\<close>

lemma sort_in_place_without_spread:
  "array_sort_in_place (compareRepos codeunit_compare Name) 0 [three_repos] ! 0 \<noteq> three_repos"
  by (simp add: array_sort_in_place_def array_sort_def SortCompare_def compareRepos_def
      three_repos_def repo_def)

text \<open>
  Claim C9. Choosing a sort mode and evaluating the sorted list leaves the array that the
  state refers to, and every other array of the store, as it was: the sorted sequence is
  in a new array; the list of requests does not grow.
\<close>

theorem sortedRepos_eval_frame:
  fixes lc :: "string \<Rightarrow> string \<Rightarrow> int" and mode :: sort_mode and st :: repo_list_state
  assumes "wf_state st"
  shows "repos (snd (sortedRepos_eval lc (setSortBy mode st))) = repos st
    \<and> repos_value (snd (sortedRepos_eval lc (setSortBy mode st))) = repos_value st
    \<and> (\<forall>b < length (store st).
          store (snd (sortedRepos_eval lc (setSortBy mode st))) ! b = store st ! b)
    \<and> fst (sortedRepos_eval lc (setSortBy mode st)) = length (store st)
    \<and> fst (sortedRepos_eval lc (setSortBy mode st)) \<noteq> repos st
    \<and> store (snd (sortedRepos_eval lc (setSortBy mode st)))
          ! fst (sortedRepos_eval lc (setSortBy mode st))
        = sortedRepos lc mode (repos_value st)
    \<and> requests (snd (sortedRepos_eval lc (setSortBy mode st))) = requests st
    \<and> requests (setSortBy mode st) = requests st"
proof -
  let ?h = "store st"
  let ?sorted = "sortedRepos lc mode (repos_value st)"
  have lt: "repos st < length ?h"
    using assms by (simp add: wf_state_def)
  have eval: "sortedRepos_eval lc (setSortBy mode st) =
      (length ?h, (setSortBy mode st)\<lparr>store := ?h @ [?sorted]\<rparr>)"
    by (simp add: sortedRepos_eval_def setSortBy_def array_spread_def array_alloc_def
        array_sort_in_place_def sortedRepos_def repos_value_def)
  have old: "(?h @ [?sorted]) ! b = ?h ! b" if "b < length ?h" for b
    using that by (simp add: nth_append)
  show ?thesis
    unfolding eval using lt old
    by (simp add: setSortBy_def repos_value_def)
qed

theorem sortedRepos_eval_frame_witness:
  "wf_state (showing three_repos)
   \<and> repos_value (snd (sortedRepos_eval codeunit_compare (setSortBy Name (showing three_repos))))
       = three_repos
   \<and> requests (snd (sortedRepos_eval codeunit_compare (setSortBy Name (showing three_repos))))
       = requests (showing three_repos)
   \<and> fst (sortedRepos_eval codeunit_compare (setSortBy Name (showing three_repos))) = 1"
proof -
  have w: "wf_state (showing three_repos)"
    by (simp add: wf_state_def showing_def)
  have v: "repos_value (showing three_repos) = three_repos" "length (store (showing three_repos)) = 1"
    by (simp_all add: repos_value_def showing_def)
  from sortedRepos_eval_frame [OF w, of codeunit_compare Name] w v show ?thesis
    by simp
qed

end
